theory Spec2Isabelle
  imports Main "HOL-Library.AList"
begin

section \<open>CodeGPT Deep Graph MCP server: JavaScript values\<close>

text \<open>
  A parsed JSON document. \<^verbatim>\<open>undefined\<close> is not a JSON value: where the code can meet it, the
  model has a \<open>json option\<close>. Numbers are the integers that a double holds exactly and
  that JavaScript prints in plain decimal, those of magnitude up to \<open>2 ^ 53\<close>; a number
  with a fraction or an exponent, or a larger one, is outside the model. Strings are
  lists of characters, and an object lists its properties in the order JavaScript
  enumerates them, one entry per key.
\<close>

datatype json = JNull | JBool bool | JNum int | JStr string | JArr "json list"
  | JObj "(string \<times> json) list"

text \<open>
  Truthiness, as \<^verbatim>\<open>||\<close>, \<^verbatim>\<open>!\<close> and \<^verbatim>\<open>if\<close> test it: of a value that is a string or \<^verbatim>\<open>undefined\<close>, and
  of any value.
\<close>

fun truthy :: "string option \<Rightarrow> bool" where
  "truthy None = False"
| "truthy (Some s) = (s \<noteq> [])"

fun js_truthy :: "json option \<Rightarrow> bool" where
  "js_truthy None = False"
| "js_truthy (Some JNull) = False"
| "js_truthy (Some (JBool b)) = b"
| "js_truthy (Some (JNum i)) = (i \<noteq> 0)"
| "js_truthy (Some (JStr s)) = (s \<noteq> [])"
| "js_truthy (Some (JArr _)) = True"
| "js_truthy (Some (JObj _)) = True"

text \<open>A string, or \<^verbatim>\<open>undefined\<close>, as a value.\<close>

definition str :: "string option \<Rightarrow> json option" where
  "str x = map_option JStr x"

text \<open>
  The string of a value in a template literal: a number in decimal, an array as its
  elements joined by commas (\<^verbatim>\<open>null\<close> elements as the empty string), any object as
  \<^verbatim>\<open>[object Object]\<close>.
\<close>

fun decimal :: "nat \<Rightarrow> string" where
  "decimal n = (if n < 10 then [''0123456789'' ! n]
                else decimal (n div 10) @ [''0123456789'' ! (n mod 10)])"

declare decimal.simps [simp del]

definition number_string :: "int \<Rightarrow> string" where
  "number_string i = (if i < 0 then CHR ''-'' # decimal (nat (- i)) else decimal (nat i))"

fun join :: "string \<Rightarrow> string list \<Rightarrow> string" where
  "join sep [] = []"
| "join sep [x] = x"
| "join sep (x # y # ys) = x @ sep @ join sep (y # ys)"

fun to_string :: "json \<Rightarrow> string" where
  "to_string JNull = ''null''"
| "to_string (JBool b) = (if b then ''true'' else ''false'')"
| "to_string (JNum i) = number_string i"
| "to_string (JStr s) = s"
| "to_string (JArr xs) = join '','' (map (\<lambda>x. if x = JNull then [] else to_string x) xs)"
| "to_string (JObj _) = ''[object Object]''"

text \<open>
  \<^verbatim>\<open>JSON.stringify(value, null, 2)\<close>: strings quoted and escaped, arrays and objects one entry
  per line, indented by two spaces per level; \<open>level\<close> is the depth of the value.
\<close>

definition escape :: "char \<Rightarrow> string" where
  "escape ch =
     (if ch = CHR 0x22 then [CHR 0x5C, CHR 0x22]
      else if ch = CHR 0x5C then [CHR 0x5C, CHR 0x5C]
      else if ch = CHR 0x08 then [CHR 0x5C, CHR ''b'']
      else if ch = CHR 0x0C then [CHR 0x5C, CHR ''f'']
      else if ch = CHR 0x0A then [CHR 0x5C, CHR ''n'']
      else if ch = CHR 0x0D then [CHR 0x5C, CHR ''r'']
      else if ch = CHR 0x09 then [CHR 0x5C, CHR ''t'']
      else if (of_char ch :: nat) < 32 then
        [CHR 0x5C, CHR ''u'', CHR ''0'', CHR ''0'',
         ''0123456789abcdef'' ! (of_char ch div 16), ''0123456789abcdef'' ! (of_char ch mod 16)]
      else [ch])"

definition quote :: "string \<Rightarrow> string" where
  "quote s = [CHR 0x22] @ concat (map escape s) @ [CHR 0x22]"

definition indent :: "nat \<Rightarrow> string" where
  "indent level = replicate (2 * level) CHR '' ''"

fun stringify :: "nat \<Rightarrow> json \<Rightarrow> string" where
  "stringify level JNull = ''null''"
| "stringify level (JBool b) = (if b then ''true'' else ''false'')"
| "stringify level (JNum i) = number_string i"
| "stringify level (JStr s) = quote s"
| "stringify level (JArr xs) =
     (if xs = [] then ''[]''
      else ''['' @ [CHR 0x0A] @ indent (Suc level)
           @ join ('','' @ [CHR 0x0A] @ indent (Suc level)) (map (stringify (Suc level)) xs)
           @ [CHR 0x0A] @ indent level @ '']'')"
| "stringify level (JObj ps) =
     (if ps = [] then ''{}''
      else ''{'' @ [CHR 0x0A] @ indent (Suc level)
           @ join ('','' @ [CHR 0x0A] @ indent (Suc level))
               (map (\<lambda>(k, v). quote k @ '': '' @ stringify (Suc level) v) ps)
           @ [CHR 0x0A] @ indent level @ ''}'')"

section \<open>The configuration\<close>

text \<open>
  The process-wide object \<^verbatim>\<open>config\<close> of \<^verbatim>\<open>config.js\<close>. Only its uses are in
  \<^verbatim>\<open>index.ts\<close>: four settings that the code tests for truthiness, the multi-repo flag and the
  repository list. A setting that is \<^verbatim>\<open>undefined\<close> is \<open>None\<close>. The settings are meant to be
  strings, but the HTTP handler stores whatever value the query parser delivers, so a
  setting holds any value.
\<close>

record config =
  CODEGPT_API_KEY :: "json option"
  CODEGPT_ORG_ID :: "json option"
  CODEGPT_GRAPH_ID :: "json option"
  CODEGPT_REPO_URL :: "json option"
  IS_MULTI_REPO :: bool
  REPO_LIST :: "string list"

section \<open>The tool handlers\<close>

text \<open>An \<^verbatim>\<open>Error\<close> object and its string form, \<^verbatim>\<open>`${error}`\<close>.\<close>

datatype js_error = JsError (error_name: string) (error_message: string)

definition error_string :: "js_error \<Rightarrow> string" where
  "error_string e =
     (if error_name e = [] then error_message e
      else if error_message e = [] then error_name e
      else error_name e @ '': '' @ error_message e)"

text \<open>\<^verbatim>\<open>`${x}`\<close> for a value or \<^verbatim>\<open>undefined\<close>.\<close>

definition template_json :: "json option \<Rightarrow> string" where
  "template_json x = (case x of None \<Rightarrow> ''undefined'' | Some v \<Rightarrow> to_string v)"

text \<open>\<^verbatim>\<open>a || b\<close> on strings.\<close>

definition or_else :: "string \<Rightarrow> string \<Rightarrow> string" where
  "or_else a b = (if a \<noteq> [] then a else b)"

text \<open>\<^verbatim>\<open>const { content } = payload\<close>: reading a property of \<^verbatim>\<open>null\<close> throws (the message
  is V8's), and a value that is not an object has no such property.\<close>

definition destructure_content :: "json \<Rightarrow> js_error + json option" where
  "destructure_content payload =
     (case payload of
        JNull \<Rightarrow> Inl (JsError ''TypeError''
          ''Cannot destructure property 'content' of '(intermediate value)' as it is null.'')
      | JObj ps \<Rightarrow> Inr (map_of ps ''content'')
      | _ \<Rightarrow> Inr None)"

text \<open>A call of \<^verbatim>\<open>fetch\<close>; the body is the document handed to \<^verbatim>\<open>JSON.stringify\<close>.\<close>

record http_call =
  url :: string
  call_method :: string
  headers :: "(string \<times> json option) list"
  body :: "json option"

text \<open>
  What a handler cannot decide itself: \<^verbatim>\<open>getGraphId\<close> of \<^verbatim>\<open>utils.js\<close>, a function of the
  configuration and the override argument that may throw, and the remote service:
  for each call either the error with which \<^verbatim>\<open>fetch\<close> or \<^verbatim>\<open>response.json()\<close> rejects, or
  the parsed payload.
\<close>

record environment =
  getGraphId :: "config \<Rightarrow> string option \<Rightarrow> js_error + json option"
  fetch_json :: "http_call \<Rightarrow> js_error + json"

definition CODEGPT_API_BASE :: string where
  "CODEGPT_API_BASE = ''https://api-mcp.codegpt.co/api/v1''"

text \<open>The result envelope \<^verbatim>\<open>{ content: [ { type: "text", text } ] }\<close>.\<close>

record content_item =
  item_type :: string
  item_text :: json

type_synonym tool_result = "content_item list"

definition text_content :: "json \<Rightarrow> tool_result" where
  "text_content t = [\<lparr>item_type = ''text'', item_text = t\<rparr>]"

text \<open>An object literal: a property whose value is \<^verbatim>\<open>undefined\<close> is not serialised.\<close>

definition object :: "(string \<times> json option) list \<Rightarrow> json" where
  "object ps = JObj (List.map_filter (\<lambda>(k, v). map_option (\<lambda>x. (k, x)) v) ps)"

definition spread_if :: "string \<Rightarrow> json option \<Rightarrow> (string \<times> json option) list" where
  "spread_if k v = (if js_truthy v then [(k, v)] else [])"

definition post_headers :: "config \<Rightarrow> (string \<times> json option) list" where
  "post_headers c =
     [(''accept'', Some (JStr ''application/json'')),
      (''authorization'', Some (JStr (''Bearer '' @ template_json (CODEGPT_API_KEY c)))),
      (''CodeGPT-Org-Id'', CODEGPT_ORG_ID c),
      (''content-type'', Some (JStr ''application/json''))]"

definition post :: "config \<Rightarrow> string \<Rightarrow> json \<Rightarrow> http_call" where
  "post c path doc =
     \<lparr>url = CODEGPT_API_BASE @ path, call_method = ''POST'', headers = post_headers c,
      body = Some doc\<rparr>"

text \<open>The arguments a handler destructures; an absent one is \<open>None\<close>.\<close>

record tool_args =
  arg_name :: "string option"
  arg_path :: "string option"
  arg_query :: "string option"
  arg_graphId :: "string option"
  arg_repository :: "string option"

text \<open>A handler returns the calls it made and either the error it threw or its result.\<close>

type_synonym handled = "http_call list \<times> (js_error + tool_result)"

text \<open>
  The \<^verbatim>\<open>try\<close> block of the four handlers that answer \<^verbatim>\<open>content || fallback\<close>, from the outcome
  of the call on: an error thrown in it is caught and becomes the text.
\<close>

definition content_or :: "string \<Rightarrow> js_error + json \<Rightarrow> tool_result" where
  "content_or fallback response =
     (case response of
        Inl error \<Rightarrow> text_content (JStr (error_string error))
      | Inr payload \<Rightarrow>
          (case destructure_content payload of
             Inl error \<Rightarrow> text_content (JStr (error_string error))
           | Inr content \<Rightarrow>
               text_content (case content of
                  None \<Rightarrow> JStr fallback
                | Some v \<Rightarrow> if js_truthy (Some v) then v else JStr fallback)))"

definition list_graphs :: "environment \<Rightarrow> config \<Rightarrow> tool_args \<Rightarrow> handled" where
  "list_graphs env c a =
     (let call = \<lparr>url = CODEGPT_API_BASE @ ''/mcp/graphs'', call_method = ''GET'',
                  headers = [(''accept'', Some (JStr ''application/json'')),
                             (''authorization'', Some (JStr (''Bearer '' @ template_json (CODEGPT_API_KEY c)))),
                             (''CodeGPT-Org-Id'', CODEGPT_ORG_ID c)],
                  body = None\<rparr>
      in ([call],
          Inr (case fetch_json env call of
                 Inl error \<Rightarrow> text_content (JStr (''Error fetching graphs: '' @ error_string error))
               | Inr data \<Rightarrow> text_content (JStr (or_else (stringify 0 data) ''No graphs available'')))))"

definition get_code :: "environment \<Rightarrow> config \<Rightarrow> tool_args \<Rightarrow> handled" where
  "get_code env c a =
     (if \<not> truthy (arg_name a) then ([], Inl (JsError ''Error'' ''name is required''))
      else case getGraphId env c (arg_graphId a) of
        Inl thrown \<Rightarrow> ([], Inl thrown)
      | Inr targetGraphId \<Rightarrow>
          (let targetRepoUrl = (if IS_MULTI_REPO c then str (arg_repository a) else CODEGPT_REPO_URL c);
               call = post c ''/mcp/graphs/get-code''
                 (object ([(''graphId'', targetGraphId), (''name'', str (arg_name a))]
                    @ spread_if ''repoUrl'' targetRepoUrl @ spread_if ''path'' (str (arg_path a))))
           in ([call],
               Inr (case fetch_json env call of
                      Inl error \<Rightarrow> text_content (JStr (error_string error))
                    | Inr payload \<Rightarrow>
                        (case destructure_content payload of
                           Inl error \<Rightarrow> text_content (JStr (error_string error))
                         | Inr content \<Rightarrow>
                             text_content (JStr (or_else (template_json content)
                               ''No response text available'')))))))"

definition find_direct_connections :: "environment \<Rightarrow> config \<Rightarrow> tool_args \<Rightarrow> handled" where
  "find_direct_connections env c a =
     (if \<not> truthy (arg_name a) then ([], Inl (JsError ''Error'' ''name is required''))
      else case getGraphId env c (arg_graphId a) of
        Inl thrown \<Rightarrow> ([], Inl thrown)
      | Inr targetGraphId \<Rightarrow>
          (let targetRepoUrl = (if IS_MULTI_REPO c then str (arg_repository a) else CODEGPT_REPO_URL c);
               call = post c ''/mcp/graphs/find-direct-connections''
                 (object ([(''graphId'', targetGraphId), (''name'', str (arg_name a))]
                    @ spread_if ''repoUrl'' targetRepoUrl @ spread_if ''path'' (str (arg_path a))))
           in ([call], Inr (content_or ''No response data available'' (fetch_json env call)))))"

definition nodes_semantic_search :: "environment \<Rightarrow> config \<Rightarrow> tool_args \<Rightarrow> handled" where
  "nodes_semantic_search env c a =
     (if \<not> truthy (arg_query a) then ([], Inl (JsError ''Error'' ''query is required''))
      else case getGraphId env c (arg_graphId a) of
        Inl thrown \<Rightarrow> ([], Inl thrown)
      | Inr targetGraphId \<Rightarrow>
          (let targetRepoUrl = (if IS_MULTI_REPO c then str (arg_repository a) else CODEGPT_REPO_URL c);
               call = post c ''/mcp/graphs/nodes-semantic-search''
                 (object ([(''graphId'', targetGraphId), (''query'', str (arg_query a))]
                    @ spread_if ''repoUrl'' targetRepoUrl))
           in ([call], Inr (content_or ''No response data available'' (fetch_json env call)))))"

definition docs_semantic_search :: "environment \<Rightarrow> config \<Rightarrow> tool_args \<Rightarrow> handled" where
  "docs_semantic_search env c a =
     (if \<not> truthy (arg_query a) then ([], Inl (JsError ''Error'' ''query is required''))
      else case getGraphId env c (arg_graphId a) of
        Inl thrown \<Rightarrow> ([], Inl thrown)
      | Inr targetGraphId \<Rightarrow>
          (let targetRepoUrl = (if IS_MULTI_REPO c then str (arg_repository a) else CODEGPT_REPO_URL c);
               call = post c ''/mcp/graphs/docs-semantic-search''
                 (object ([(''graphId'', targetGraphId), (''query'', str (arg_query a))]
                    @ spread_if ''repoUrl'' targetRepoUrl))
           in ([call],
               Inr (case fetch_json env call of
                      Inl error \<Rightarrow> text_content (JStr (error_string error))
                    | Inr data \<Rightarrow>
                        text_content (JStr (or_else (stringify 0 data)
                          ''No response data available''))))))"

definition folder_tree_structure :: "environment \<Rightarrow> config \<Rightarrow> tool_args \<Rightarrow> handled" where
  "folder_tree_structure env c a =
     (case getGraphId env c (arg_graphId a) of
        Inl thrown \<Rightarrow> ([], Inl thrown)
      | Inr targetGraphId \<Rightarrow>
          (let targetRepoUrl = (if IS_MULTI_REPO c then str (arg_repository a) else CODEGPT_REPO_URL c);
               call = post c ''/mcp/graphs/folder-tree-structure''
                 (object ([(''graphId'', targetGraphId)] @ spread_if ''repoUrl'' targetRepoUrl
                    @ [(''path'', if truthy (arg_path a) then str (arg_path a) else Some (JStr []))]))
           in ([call], Inr (content_or ''No response data available'' (fetch_json env call)))))"

definition get_usage_dependency_links :: "environment \<Rightarrow> config \<Rightarrow> tool_args \<Rightarrow> handled" where
  "get_usage_dependency_links env c a =
     (if \<not> truthy (arg_name a) then ([], Inl (JsError ''Error'' ''name is required''))
      else case getGraphId env c (arg_graphId a) of
        Inl thrown \<Rightarrow> ([], Inl thrown)
      | Inr targetGraphId \<Rightarrow>
          (let targetRepoUrl = (if IS_MULTI_REPO c then str (arg_repository a) else CODEGPT_REPO_URL c);
               call = post c ''/mcp/graphs/get-usage-dependency-links''
                 (object ([(''graphId'', targetGraphId), (''name'', str (arg_name a))]
                    @ spread_if ''repoUrl'' targetRepoUrl @ spread_if ''path'' (str (arg_path a))))
           in ([call], Inr (content_or ''No response data available'' (fetch_json env call)))))"

section \<open>Tool registration\<close>

text \<open>
  An \<^verbatim>\<open>McpServer\<close> is modelled by the names of the tools registered on it, in registration
  order. The descriptions (the only place the repository label goes to) and the schemas
  built by \<^verbatim>\<open>createToolSchema\<close> are not part of the model.
\<close>

type_synonym mcp_server = "string list"

definition new_McpServer :: mcp_server where
  "new_McpServer = []"

definition tool :: "string \<Rightarrow> mcp_server \<Rightarrow> mcp_server" where
  "tool name server = server @ [name]"

definition registerTools :: "config \<Rightarrow> mcp_server \<Rightarrow> mcp_server" where
  "registerTools c server =
     (let server1 =
        (if \<not> js_truthy (CODEGPT_GRAPH_ID c) \<and> \<not> js_truthy (CODEGPT_REPO_URL c)
            \<and> \<not> IS_MULTI_REPO c
         then tool ''list-graphs'' server else server)
      in tool ''get-usage-dependency-links''
          (tool ''folder-tree-structure''
            (tool ''docs-semantic-search''
              (tool ''nodes-semantic-search''
                (tool ''find-direct-connections''
                  (tool ''get-code'' server1))))))"

section \<open>The server factory and the command line\<close>

text \<open>The configuration object a hosting platform passes to \<^verbatim>\<open>createServer\<close>.\<close>

record server_config =
  apiKey :: string
  orgId :: "string option"
  graphId :: "string option"
  repoUrl :: "string option"

text \<open>\<^verbatim>\<open>s.startsWith(p)\<close> and \<^verbatim>\<open>s.includes(ch)\<close> for a single character.\<close>

definition startsWith :: "string \<Rightarrow> string \<Rightarrow> bool" where
  "startsWith s p = (take (length p) s = p)"

definition includes_char :: "string \<Rightarrow> char \<Rightarrow> bool" where
  "includes_char s ch = (ch \<in> set s)"

definition apply_userConfig :: "server_config \<Rightarrow> config \<Rightarrow> config" where
  "apply_userConfig u c =
     (let c1 = c\<lparr>CODEGPT_API_KEY := Some (JStr (apiKey u))\<rparr>;
          c2 = (if truthy (orgId u) then c1\<lparr>CODEGPT_ORG_ID := str (orgId u)\<rparr> else c1);
          c3 = (if truthy (graphId u) then c2\<lparr>CODEGPT_GRAPH_ID := str (graphId u)\<rparr> else c2)
      in (if truthy (repoUrl u) then c3\<lparr>CODEGPT_REPO_URL := str (repoUrl u)\<rparr> else c3))"

text \<open>
  The block of \<^verbatim>\<open>createServer\<close> that reads the command line; \<open>argv\<close> is \<^verbatim>\<open>process.argv\<close>, whose
  first two entries are the interpreter and the script.
\<close>

definition cli_arguments :: "string list \<Rightarrow> config \<Rightarrow> config" where
  "cli_arguments argv c =
     (let args = drop 2 argv;
          repoUrls = filter (\<lambda>arg. includes_char arg CHR ''/'' \<and> \<not> startsWith arg ''sk-'') args;
          apiKey = find (\<lambda>arg. startsWith arg ''sk-'') args
      in
      if length repoUrls > 1 then
        c\<lparr>IS_MULTI_REPO := True, REPO_LIST := repoUrls,
          CODEGPT_API_KEY := (if truthy apiKey then str apiKey else CODEGPT_API_KEY c)\<rparr>
      else if length repoUrls = 1 then
        c\<lparr>CODEGPT_REPO_URL := Some (JStr (repoUrls ! 0)),
          CODEGPT_API_KEY := (if truthy apiKey then str apiKey else CODEGPT_API_KEY c)\<rparr>
      else if truthy apiKey then c\<lparr>CODEGPT_API_KEY := str apiKey\<rparr>
      else c)"

text \<open>
  \<^verbatim>\<open>createServer\<close> returns the configuration it leaves behind and the server with its tools.
  \<open>IS_HTTP_MODE\<close> is the module constant of that name (the environment has a \<^verbatim>\<open>PORT\<close>).
\<close>

definition createServer ::
    "bool \<Rightarrow> server_config option \<Rightarrow> string list \<Rightarrow> config \<Rightarrow> config \<times> mcp_server" where
  "createServer IS_HTTP_MODE userConfig argv c =
     (let c1 = (case userConfig of None \<Rightarrow> c | Some u \<Rightarrow> apply_userConfig u c);
          c2 = (if \<not> IS_HTTP_MODE \<and> userConfig = None then cli_arguments argv c1 else c1)
      in (c2, registerTools c2 new_McpServer))"

section \<open>The HTTP endpoint \<^verbatim>\<open>/mcp\<close>\<close>

text \<open>
  A request as \<^verbatim>\<open>startHttpServer\<close> reads it: \<^verbatim>\<open>req.method\<close>, \<^verbatim>\<open>req.query\<close> and the header
  \<^verbatim>\<open>mcp-session-id\<close>. The query parser delivers a string for a parameter given once, an
  array for a repeated one and an object for a bracketed one; the code casts the value
  with \<^verbatim>\<open>as string\<close>, which checks nothing when the program runs.
\<close>

record request =
  req_method :: string
  req_query :: "string \<rightharpoonup> json"
  mcp_session_id :: "string option"

text \<open>
  The transport is the SDK's. What it does while the handler awaits
  \<^verbatim>\<open>mcpServer.connect(transport)\<close> and \<^verbatim>\<open>transport.handleRequest(req, res)\<close> is an input of
  the model: the callbacks it fires, in order, and whether the awaited promise resolves
  or rejects.
\<close>

datatype callback = SessionInitialized string | Closed

datatype settled = Resolved | Rejected

record delegation =
  fired :: "callback list"
  outcome :: settled

text \<open>
  The table \<^verbatim>\<open>transports\<close> is a JavaScript \<^verbatim>\<open>Map\<close>: an association list in insertion order with
  one entry per key. A transport is named by its number of creation, which is also the
  index of the \<^verbatim>\<open>McpServer\<close> connected to it in \<open>servers\<close>.
\<close>

type_synonym session_table = "(string \<times> nat) list"

record http_server =
  config :: config
  transports :: session_table
  servers :: "mcp_server list"

definition startHttpServer :: "config \<Rightarrow> http_server" where
  "startHttpServer c = \<lparr>config = c, transports = [], servers = []\<rparr>"

text \<open>The two callbacks wired to a new transport, as closures over that transport.\<close>

definition onsessioninitialized :: "nat \<Rightarrow> string \<Rightarrow> session_table \<Rightarrow> session_table" where
  "onsessioninitialized transport newSessionId tbl = AList.update newSessionId transport tbl"

definition onclose :: "nat \<Rightarrow> session_table \<Rightarrow> session_table" where
  "onclose transport tbl =
     (case find (\<lambda>(_, t). t = transport) tbl of
        None \<Rightarrow> tbl
      | Some (sid, _) \<Rightarrow> if sid \<noteq> [] then AList.delete sid tbl else tbl)"

fun fire :: "nat \<Rightarrow> callback \<Rightarrow> session_table \<Rightarrow> session_table" where
  "fire transport (SessionInitialized newSessionId) tbl =
     onsessioninitialized transport newSessionId tbl"
| "fire transport Closed tbl = onclose transport tbl"

definition handleRequest :: "nat \<Rightarrow> delegation \<Rightarrow> session_table \<Rightarrow> session_table" where
  "handleRequest transport d tbl = fold (fire transport) (fired d) tbl"

text \<open>\<^verbatim>\<open>sessionId && transports.has(sessionId)\<close>, then \<^verbatim>\<open>transports.get(sessionId)!\<close>.\<close>

definition lookup_session :: "string option \<Rightarrow> session_table \<Rightarrow> (string \<times> nat) option" where
  "lookup_session sessionId tbl =
     (case sessionId of
        None \<Rightarrow> None
      | Some sid \<Rightarrow>
          if sid \<noteq> [] then (case map_of tbl sid of None \<Rightarrow> None | Some t \<Rightarrow> Some (sid, t))
          else None)"

text \<open>The query-parameter overrides at the head of the handler.\<close>

definition apply_query :: "request \<Rightarrow> config \<Rightarrow> config" where
  "apply_query req c =
     (let c1 = (if js_truthy (req_query req ''config.apiKey'')
                then c\<lparr>CODEGPT_API_KEY := req_query req ''config.apiKey''\<rparr> else c);
          c2 = (if js_truthy (req_query req ''config.orgId'')
                then c1\<lparr>CODEGPT_ORG_ID := req_query req ''config.orgId''\<rparr> else c1);
          c3 = (if js_truthy (req_query req ''config.graphId'')
                then c2\<lparr>CODEGPT_GRAPH_ID := req_query req ''config.graphId''\<rparr> else c2)
      in (if js_truthy (req_query req ''config.repoUrl'')
          then c3\<lparr>CODEGPT_REPO_URL := req_query req ''config.repoUrl''\<rparr> else c3))"

text \<open>
  What happens to a request: the handler answers itself with a status and an error
  message, it hands the request to the transport of an existing session, or it creates
  a transport and a server and hands the request to the new transport; or the request
  is answered before the handler, with a status and no body. In the second and third
  the response is the transport's; \<open>Rejected\<close> means the awaited call threw, so the
  handler's own promise rejects at that point.
\<close>

datatype reply =
  Json nat string
| Delegated nat settled
| Created nat settled
| NoContent nat

text \<open>The handler installed with \<^verbatim>\<open>app.all('/mcp', ...)\<close>.\<close>

definition mcp :: "request \<Rightarrow> delegation \<Rightarrow> http_server \<Rightarrow> http_server \<times> reply" where
  "mcp req d s =
     (let c = apply_query req (config s);
          s1 = s\<lparr>config := c\<rparr>;
          sessionId = mcp_session_id req
      in
      if \<not> js_truthy (CODEGPT_API_KEY c) then
        (s1, Json 400 ''API key required. Pass config.apiKey as query parameter or set CODEGPT_API_KEY env var.'')
      else if req_method req = ''GET'' then
        (case lookup_session sessionId (transports s1) of
           Some (sid, transport) \<Rightarrow>
             (s1\<lparr>transports := handleRequest transport d (transports s1)\<rparr>,
              Delegated transport (outcome d))
         | None \<Rightarrow> (s1, Json 400 ''Invalid or missing session ID''))
      else if req_method req = ''POST'' then
        (case lookup_session sessionId (transports s1) of
           Some (sid, transport) \<Rightarrow>
             (s1\<lparr>transports := handleRequest transport d (transports s1)\<rparr>,
              Delegated transport (outcome d))
         | None \<Rightarrow>
             (let transport = length (servers s1);
                  mcpServer = registerTools c new_McpServer
              in (s1\<lparr>servers := servers s1 @ [mcpServer],
                     transports := handleRequest transport d (transports s1)\<rparr>,
                  Created transport (outcome d))))
      else if req_method req = ''DELETE'' then
        (case lookup_session sessionId (transports s1) of
           Some (sid, transport) \<Rightarrow>
             (case outcome d of
                Resolved \<Rightarrow>
                  (s1\<lparr>transports := AList.delete sid (handleRequest transport d (transports s1))\<rparr>,
                   Delegated transport Resolved)
              | Rejected \<Rightarrow>
                  (s1\<lparr>transports := handleRequest transport d (transports s1)\<rparr>,
                   Delegated transport Rejected))
         | None \<Rightarrow> (s1, Json 400 ''Invalid or missing session ID''))
      else (s1, Json 405 ''Method not allowed''))"

text \<open>
  In front of the handler \<^verbatim>\<open>startHttpServer\<close> installs the \<^verbatim>\<open>cors\<close> middleware, with \<^verbatim>\<open>OPTIONS\<close> among
  its methods and the preflight left to it: it ends every \<^verbatim>\<open>OPTIONS\<close> request itself, with
  status 204 and no body, and passes every other request on. (The \<^verbatim>\<open>express.json\<close>
  middleware after it passes on every request whose body it accepts.)
\<close>

definition cors :: "request \<Rightarrow> reply option" where
  "cors req = (if req_method req = ''OPTIONS'' then Some (NoContent 204) else None)"

definition endpoint :: "request \<Rightarrow> delegation \<Rightarrow> http_server \<Rightarrow> http_server \<times> reply" where
  "endpoint req d s = (case cors req of Some preflight \<Rightarrow> (s, preflight) | None \<Rightarrow> mcp req d s)"

text \<open>
  The server handling one request after the other. A request is one step: the callbacks
  its transport fires while the handler awaits it take effect within the step.
\<close>

fun run :: "(request \<times> delegation) list \<Rightarrow> http_server \<Rightarrow> http_server" where
  "run [] s = s"
| "run ((req, d) # rest) s = run rest (fst (endpoint req d s))"

section \<open>Direct execution\<close>




section \<open>Notions used to state the properties\<close>

text \<open>The two error answers of the handler that the properties name.\<close>

definition api_key_required :: reply where
  "api_key_required =
     Json 400 ''API key required. Pass config.apiKey as query parameter or set CODEGPT_API_KEY env var.''"

definition invalid_session :: reply where
  "invalid_session = Json 400 ''Invalid or missing session ID''"

text \<open>The transport that got the request, if one did.\<close>

definition handled_by :: "reply \<Rightarrow> nat option" where
  "handled_by r =
     (case r of Json _ _ \<Rightarrow> None | Delegated t _ \<Rightarrow> Some t | Created t _ \<Rightarrow> Some t
      | NoContent _ \<Rightarrow> None)"

text \<open>
  A request leaves the entry of session \<open>sid\<close> and transport \<open>t\<close> alone: it is not a
  \<^verbatim>\<open>DELETE\<close> bearing \<open>sid\<close> whose delegation returns, the transport \<open>t\<close> does not fire its
  close callback while handling it, and no other transport fires its initialization
  callback with \<open>sid\<close>.
\<close>

definition keeps :: "string \<Rightarrow> nat \<Rightarrow> request \<Rightarrow> delegation \<Rightarrow> http_server \<Rightarrow> bool" where
  "keeps sid t req d s =
     (\<not> (req_method req = ''DELETE'' \<and> mcp_session_id req = Some sid \<and> outcome d = Resolved) \<and>
      (case handled_by (snd (endpoint req d s)) of
         None \<Rightarrow> True
       | Some u \<Rightarrow> if u = t then Closed \<notin> set (fired d)
                  else SessionInitialized sid \<notin> set (fired d)))"

fun undisturbed :: "string \<Rightarrow> nat \<Rightarrow> (request \<times> delegation) list \<Rightarrow> http_server \<Rightarrow> bool" where
  "undisturbed sid t [] s = True"
| "undisturbed sid t ((req, d) # rest) s =
     (keeps sid t req d s \<and> undisturbed sid t rest (fst (endpoint req d s)))"

text \<open>
  The table of a running server has one entry per session id, and every transport in it
  was created by the handler.
\<close>

definition wf :: "http_server \<Rightarrow> bool" where
  "wf s = (distinct (map fst (transports s)) \<and> (\<forall>e \<in> set (transports s). snd e < length (servers s)))"

section \<open>Concrete inputs\<close>

definition unset_config :: config where
  "unset_config = \<lparr>CODEGPT_API_KEY = None, CODEGPT_ORG_ID = None, CODEGPT_GRAPH_ID = None,
     CODEGPT_REPO_URL = None, IS_MULTI_REPO = False, REPO_LIST = []\<rparr>"

definition keyed_config :: config where
  "keyed_config = \<lparr>CODEGPT_API_KEY = Some (JStr ''sk-test''), CODEGPT_ORG_ID = None,
     CODEGPT_GRAPH_ID = None, CODEGPT_REPO_URL = None, IS_MULTI_REPO = False, REPO_LIST = []\<rparr>"

definition http_request :: "string \<Rightarrow> string option \<Rightarrow> request" where
  "http_request m sid = \<lparr>req_method = m, req_query = Map.empty, mcp_session_id = sid\<rparr>"

definition with_query :: "request \<Rightarrow> string \<Rightarrow> json \<Rightarrow> request" where
  "with_query req k v = req\<lparr>req_query := (req_query req)(k \<mapsto> v)\<rparr>"

definition handshake :: "string \<Rightarrow> delegation" where
  "handshake sid = \<lparr>fired = [SessionInitialized sid], outcome = Resolved\<rparr>"

definition answers :: delegation where
  "answers = \<lparr>fired = [], outcome = Resolved\<rparr>"

definition closes :: delegation where
  "closes = \<lparr>fired = [Closed], outcome = Resolved\<rparr>"

definition throws :: delegation where
  "throws = \<lparr>fired = [], outcome = Rejected\<rparr>"

text \<open>
  Modelled from the spec: \<^verbatim>\<open>getGraphId\<close> of \<^verbatim>\<open>utils.js\<close> is not among the sources. The spec
  gives it the precedence "explicit override argument, else process-configured graph
  id". The handlers above take the function as a parameter; this instance only serves
  the concrete inputs below.
\<close>

definition spec_getGraphId :: "config \<Rightarrow> string option \<Rightarrow> js_error + json option" where
  "spec_getGraphId c override = Inr (if truthy override then str override else CODEGPT_GRAPH_ID c)"

definition remote_returns :: "json \<Rightarrow> environment" where
  "remote_returns payload = \<lparr>getGraphId = spec_getGraphId, fetch_json = (\<lambda>_. Inr payload)\<rparr>"

definition remote_fails :: "js_error \<Rightarrow> environment" where
  "remote_fails e = \<lparr>getGraphId = spec_getGraphId, fetch_json = (\<lambda>_. Inl e)\<rparr>"

definition no_args :: tool_args where
  "no_args = \<lparr>arg_name = None, arg_path = None, arg_query = None, arg_graphId = None,
     arg_repository = None\<rparr>"

section \<open>Facts about the session table\<close>

lemma set_update_subset: "set (AList.update k v al) \<subseteq> insert (k, v) (set al)"
  by (induction al) auto

lemma onclose_subset: "set (onclose t tbl) \<subseteq> set tbl"
  by (auto simp: onclose_def AList.delete_eq split: option.splits)

lemma fire_distinct: "distinct (map fst tbl) \<Longrightarrow> distinct (map fst (fire t cb tbl))"
  by (cases cb) (auto simp: onsessioninitialized_def onclose_def distinct_update distinct_delete
      split: option.splits)

lemma fire_bound:
  assumes "\<forall>e \<in> set tbl. snd e < n" and "t < n"
  shows "\<forall>e \<in> set (fire t cb tbl). snd e < n"
proof (cases cb)
  case (SessionInitialized x)
  then show ?thesis using assms set_update_subset[of x t tbl]
    by (auto simp: onsessioninitialized_def)
next
  case Closed
  then show ?thesis using assms onclose_subset[of t tbl] by auto
qed

lemma fold_fire_distinct:
  "distinct (map fst tbl) \<Longrightarrow> distinct (map fst (fold (fire t) cbs tbl))"
  by (induction cbs arbitrary: tbl) (auto simp: fire_distinct)

lemma fold_fire_bound:
  "\<forall>e \<in> set tbl. snd e < n \<Longrightarrow> t < n \<Longrightarrow> \<forall>e \<in> set (fold (fire t) cbs tbl). snd e < n"
proof (induction cbs arbitrary: tbl)
  case Nil
  then show ?case by simp
next
  case (Cons cb cbs)
  from fire_bound[OF Cons.prems] have "\<forall>e \<in> set (fire t cb tbl). snd e < n" .
  from Cons.IH[OF this Cons.prems(2)] show ?case by simp
qed

lemma fold_fire_no_insert:
  "\<forall>x. SessionInitialized x \<notin> set cbs \<Longrightarrow> set (fold (fire t) cbs tbl) \<subseteq> set tbl"
proof (induction cbs arbitrary: tbl)
  case Nil
  then show ?case by simp
next
  case (Cons cb cbs)
  from Cons.prems have "cb = Closed" by (cases cb) auto
  then have "set (fire t cb tbl) \<subseteq> set tbl" by (simp add: onclose_subset)
  moreover have "set (fold (fire t) cbs (fire t cb tbl)) \<subseteq> set (fire t cb tbl)"
    using Cons.prems by (intro Cons.IH) auto
  ultimately show ?case by auto
qed

lemma find_value: "find (\<lambda>(_, v). v = u) tbl = Some (k, v) \<Longrightarrow> (k, v) \<in> set tbl \<and> v = u"
  by (induction tbl) (auto split: if_splits)

text \<open>
  The entry of \<open>sid\<close> survives a callback of its own transport that is not a close, and
  a callback of another transport that is not an initialization under \<open>sid\<close>.
\<close>

lemma fire_keeps:
  assumes "map_of tbl sid = Some t" and "distinct (map fst tbl)"
    and "if u = t then cb \<noteq> Closed else cb \<noteq> SessionInitialized sid"
  shows "map_of (fire u cb tbl) sid = Some t"
proof (cases cb)
  case (SessionInitialized x)
  then show ?thesis using assms
    by (auto simp: onsessioninitialized_def update_conv' split: if_splits)
next
  case Closed
  with assms(3) have ne: "u \<noteq> t" by (auto split: if_splits)
  show ?thesis
  proof (cases "find (\<lambda>(_, v). v = u) tbl")
    case None
    then show ?thesis using Closed assms(1) by (simp add: onclose_def)
  next
    case (Some e)
    obtain k v where e: "e = (k, v)" by (cases e)
    from find_value[of u tbl k v] Some e have in_tbl: "(k, u) \<in> set tbl" by auto
    have "k \<noteq> sid"
    proof
      assume "k = sid"
      with in_tbl assms(2) have "map_of tbl sid = Some u" by simp
      with assms(1) ne show False by simp
    qed
    then show ?thesis using Closed Some e assms(1)
      by (simp add: onclose_def delete_conv')
  qed
qed

lemma fold_fire_keeps:
  assumes "map_of tbl sid = Some t" and "distinct (map fst tbl)"
    and "if u = t then Closed \<notin> set cbs else SessionInitialized sid \<notin> set cbs"
  shows "map_of (fold (fire u) cbs tbl) sid = Some t"
  using assms
proof (induction cbs arbitrary: tbl)
  case Nil
  then show ?case by simp
next
  case (Cons cb cbs)
  have step: "map_of (fire u cb tbl) sid = Some t"
    using Cons.prems by (intro fire_keeps) (auto split: if_splits)
  have "map_of (fold (fire u) cbs (fire u cb tbl)) sid = Some t"
    using Cons.prems(3)
    by (intro Cons.IH[OF step fire_distinct[OF Cons.prems(2)]]) (auto split: if_splits)
  then show ?case by simp
qed

section \<open>Facts about the handler\<close>

lemma apply_query_fields:
  "CODEGPT_API_KEY (apply_query req c) =
     (if js_truthy (req_query req ''config.apiKey'') then req_query req ''config.apiKey''
      else CODEGPT_API_KEY c)"
  "CODEGPT_ORG_ID (apply_query req c) =
     (if js_truthy (req_query req ''config.orgId'') then req_query req ''config.orgId''
      else CODEGPT_ORG_ID c)"
  "CODEGPT_GRAPH_ID (apply_query req c) =
     (if js_truthy (req_query req ''config.graphId'') then req_query req ''config.graphId''
      else CODEGPT_GRAPH_ID c)"
  "CODEGPT_REPO_URL (apply_query req c) =
     (if js_truthy (req_query req ''config.repoUrl'') then req_query req ''config.repoUrl''
      else CODEGPT_REPO_URL c)"
  "IS_MULTI_REPO (apply_query req c) = IS_MULTI_REPO c"
  "REPO_LIST (apply_query req c) = REPO_LIST c"
  by (simp_all add: apply_query_def Let_def)

lemma apply_query_key:
  "js_truthy (CODEGPT_API_KEY c) \<Longrightarrow> js_truthy (CODEGPT_API_KEY (apply_query req c))"
  by (simp add: apply_query_def Let_def)

lemma mcp_config: "config (fst (mcp req d s)) = apply_query req (config s)"
  by (simp add: mcp_def Let_def split: option.splits settled.splits prod.splits)

lemma lookup_session_Some:
  "lookup_session h tbl = Some (k, u) \<longleftrightarrow> h = Some k \<and> k \<noteq> [] \<and> map_of tbl k = Some u"
  by (auto simp: lookup_session_def split: option.splits)

lemma gate_passed:
  "js_truthy (CODEGPT_API_KEY (apply_query req (config s))) \<Longrightarrow> snd (mcp req d s) \<noteq> api_key_required"
  by (auto simp: mcp_def Let_def api_key_required_def split: option.splits settled.splits)

lemma endpoint_handler: "req_method req \<noteq> ''OPTIONS'' \<Longrightarrow> endpoint req d s = mcp req d s"
  by (simp add: endpoint_def cors_def)

lemma endpoint_preflight: "req_method req = ''OPTIONS'' \<Longrightarrow> endpoint req d s = (s, NoContent 204)"
  by (simp add: endpoint_def cors_def)

text \<open>The four ways a request ends in the handler.\<close>

lemma mcp_cases:
  obtains
    (answered) "\<exists>n msg. snd (mcp req d s) = Json n msg"
      and "transports (fst (mcp req d s)) = transports s"
      and "servers (fst (mcp req d s)) = servers s"
  | (delegated) k u where "lookup_session (mcp_session_id req) (transports s) = Some (k, u)"
      and "snd (mcp req d s) = Delegated u (outcome d)"
      and "transports (fst (mcp req d s)) = handleRequest u d (transports s)"
      and "servers (fst (mcp req d s)) = servers s"
      and "\<not> (req_method req = ''DELETE'' \<and> outcome d = Resolved)"
  | (deleted) k u where "lookup_session (mcp_session_id req) (transports s) = Some (k, u)"
      and "snd (mcp req d s) = Delegated u Resolved"
      and "transports (fst (mcp req d s)) = AList.delete k (handleRequest u d (transports s))"
      and "servers (fst (mcp req d s)) = servers s"
      and "req_method req = ''DELETE''" and "outcome d = Resolved"
  | (created) "lookup_session (mcp_session_id req) (transports s) = None"
      and "snd (mcp req d s) = Created (length (servers s)) (outcome d)"
      and "transports (fst (mcp req d s)) = handleRequest (length (servers s)) d (transports s)"
      and "servers (fst (mcp req d s)) =
             servers s @ [registerTools (apply_query req (config s)) new_McpServer]"
      and "req_method req = ''POST''"
proof (cases "js_truthy (CODEGPT_API_KEY (apply_query req (config s)))")
  case False
  then show ?thesis by (intro answered) (simp_all add: mcp_def Let_def)
next
  case key: True
  show ?thesis
  proof (cases "lookup_session (mcp_session_id req) (transports s)")
    case None
    show ?thesis
    proof (cases "req_method req = ''POST''")
      case True
      with key None show ?thesis by (intro created) (simp_all add: mcp_def Let_def)
    next
      case False
      with key None show ?thesis by (intro answered) (auto simp add: mcp_def Let_def)
    qed
  next
    case (Some e)
    obtain k u where e: "e = (k, u)" by (cases e)
    show ?thesis
    proof (cases "req_method req = ''DELETE''")
      case del: True
      show ?thesis
      proof (cases "outcome d")
        case Resolved
        with key Some e del show ?thesis
          by (intro deleted[of k u]) (simp_all add: mcp_def Let_def)
      next
        case Rejected
        with key Some e del show ?thesis
          by (intro delegated[of k u]) (simp_all add: mcp_def Let_def)
      qed
    next
      case nodel: False
      show ?thesis
      proof (cases "req_method req = ''GET'' \<or> req_method req = ''POST''")
        case True
        with key Some e nodel show ?thesis
          by (intro delegated[of k u]) (auto simp add: mcp_def Let_def)
      next
        case False
        with key Some e nodel show ?thesis
          by (intro answered) (auto simp add: mcp_def Let_def)
      qed
    qed
  qed
qed

lemma mcp_wf:
  assumes "wf s"
  shows "wf (fst (mcp req d s))"
proof -
  let ?tbl = "transports s" and ?n = "length (servers s)"
  from assms have dist: "distinct (map fst ?tbl)" and bnd: "\<forall>e \<in> set ?tbl. snd e < ?n"
    by (auto simp: wf_def)
  have known: "u < ?n" if "lookup_session h ?tbl = Some (k, u)" for h k u
  proof -
    from that have "map_of ?tbl k = Some u" by (simp add: lookup_session_Some)
    from map_of_SomeD[OF this] bnd show ?thesis by fastforce
  qed
  have d1: "distinct (map fst (handleRequest u d ?tbl))" for u
    by (simp add: handleRequest_def fold_fire_distinct dist)
  have b1: "\<forall>e \<in> set (handleRequest u d ?tbl). snd e < ?n" if "u < ?n" for u
    unfolding handleRequest_def by (rule fold_fire_bound[OF bnd that])
  show ?thesis
  proof (cases rule: mcp_cases[of req d s])
    case answered
    then show ?thesis using dist bnd by (simp add: wf_def)
  next
    case (delegated k u)
    then show ?thesis using d1 b1[OF known[OF delegated(1)]] by (simp add: wf_def)
  next
    case (deleted k u)
    have "\<forall>e \<in> set (AList.delete k (handleRequest u d ?tbl)). snd e < ?n"
      using b1[OF known[OF deleted(1)]] by (auto simp: AList.delete_eq)
    then show ?thesis using deleted d1 by (simp add: wf_def distinct_delete)
  next
    case created
    from bnd have "\<forall>e \<in> set ?tbl. snd e < Suc ?n" by (auto simp: less_Suc_eq)
    then have "\<forall>e \<in> set (handleRequest ?n d ?tbl). snd e < Suc ?n"
      unfolding handleRequest_def by (rule fold_fire_bound) simp
    then show ?thesis using created d1 by (simp add: wf_def)
  qed
qed

lemma endpoint_wf: "wf s \<Longrightarrow> wf (fst (endpoint req d s))"
  by (cases "req_method req = ''OPTIONS''") (simp_all add: endpoint_preflight endpoint_handler mcp_wf)

lemma run_wf: "wf s \<Longrightarrow> wf (run evs s)"
  by (induction evs arbitrary: s) (auto simp: endpoint_wf)

lemma start_wf: "wf (startHttpServer c)"
  by (simp add: wf_def startHttpServer_def)

lemma mcp_keeps:
  assumes "wf s" and "map_of (transports s) sid = Some t" and "keeps sid t req d s"
    and handler: "req_method req \<noteq> ''OPTIONS''"
  shows "map_of (transports (fst (mcp req d s))) sid = Some t"
proof -
  from assms(1) have dist: "distinct (map fst (transports s))" by (simp add: wf_def)
  have hr: "map_of (handleRequest u d (transports s)) sid = Some t"
    if "handled_by (snd (mcp req d s)) = Some u" for u
    unfolding handleRequest_def
    using assms(3) that
    by (intro fold_fire_keeps[OF assms(2) dist]) (simp add: keeps_def endpoint_handler[OF handler])
  show ?thesis
  proof (cases rule: mcp_cases[of req d s])
    case answered
    then show ?thesis using assms(2) by simp
  next
    case (delegated k u)
    then show ?thesis using hr[of u] by (simp add: handled_by_def)
  next
    case (deleted k u)
    from deleted(1) have "mcp_session_id req = Some k" by (simp add: lookup_session_Some)
    with assms(3) deleted(5,6) have "k \<noteq> sid" by (auto simp: keeps_def)
    then show ?thesis using deleted hr[of u] by (simp add: handled_by_def delete_conv')
  next
    case created
    then show ?thesis using hr[of "length (servers s)"] by (simp add: handled_by_def)
  qed
qed

lemma endpoint_keeps:
  assumes "wf s" and "map_of (transports s) sid = Some t" and "keeps sid t req d s"
  shows "map_of (transports (fst (endpoint req d s))) sid = Some t"
proof (cases "req_method req = ''OPTIONS''")
  case True
  then show ?thesis using assms(2) by (simp add: endpoint_preflight)
next
  case False
  then show ?thesis using mcp_keeps[OF assms False] by (simp add: endpoint_handler)
qed

lemma run_keeps:
  assumes "wf s" and "map_of (transports s) sid = Some t" and "undisturbed sid t evs s"
  shows "map_of (transports (run evs s)) sid = Some t"
  using assms
proof (induction evs arbitrary: s)
  case Nil
  then show ?case by simp
next
  case (Cons ev evs)
  obtain req d where ev: "ev = (req, d)" by (cases ev)
  from Cons.prems ev have k: "keeps sid t req d s"
    and u: "undisturbed sid t evs (fst (endpoint req d s))"
    by simp_all
  from Cons.IH[OF endpoint_wf[OF Cons.prems(1)] endpoint_keeps[OF Cons.prems(1,2) k] u] ev
  show ?case by simp
qed

lemma endpoint_key:
  "js_truthy (CODEGPT_API_KEY (config s)) \<Longrightarrow>
   js_truthy (CODEGPT_API_KEY (config (fst (endpoint req d s))))"
  by (cases "req_method req = ''OPTIONS''")
    (simp_all add: endpoint_preflight endpoint_handler mcp_config apply_query_key)

lemma run_key:
  "js_truthy (CODEGPT_API_KEY (config s)) \<Longrightarrow> js_truthy (CODEGPT_API_KEY (config (run evs s)))"
  by (induction evs arbitrary: s) (auto simp: endpoint_key)

lemma routed_to_session:
  assumes "js_truthy (CODEGPT_API_KEY (config s))" and "map_of (transports s) sid = Some t"
    and "sid \<noteq> []" and "mcp_session_id req = Some sid"
    and "req_method req = ''GET'' \<or> req_method req = ''POST'' \<or> req_method req = ''DELETE''"
  shows "snd (mcp req d s) = Delegated t (outcome d)"
proof -
  have "lookup_session (mcp_session_id req) (transports s) = Some (sid, t)"
    using assms by (simp add: lookup_session_Some)
  moreover have "js_truthy (CODEGPT_API_KEY (apply_query req (config s)))"
    using assms(1) by (rule apply_query_key)
  ultimately show ?thesis using assms(5)
    by (cases "outcome d") (auto simp: mcp_def Let_def)
qed

lemma mcp_no_insert:
  assumes "\<forall>x. SessionInitialized x \<notin> set (fired d)"
  shows "set (transports (fst (mcp req d s))) \<subseteq> set (transports s)"
proof -
  have hr: "set (handleRequest u d (transports s)) \<subseteq> set (transports s)" for u
    unfolding handleRequest_def by (rule fold_fire_no_insert[OF assms])
  show ?thesis
  proof (cases rule: mcp_cases[of req d s])
    case answered
    then show ?thesis by simp
  next
    case (delegated k u)
    then show ?thesis using hr by simp
  next
    case (deleted k u)
    then show ?thesis using hr[of u] by (auto simp: AList.delete_eq)
  next
    case created
    then show ?thesis using hr by simp
  qed
qed

lemma endpoint_setting:
  assumes "\<And>req c. get (apply_query req c) =
             (if js_truthy (req_query req name) then req_query req name else get c)"
    and "req_method req = ''OPTIONS'' \<or> \<not> js_truthy (req_query req name)"
  shows "get (config (fst (endpoint req d s))) = get (config s)"
proof (cases "req_method req = ''OPTIONS''")
  case True
  then show ?thesis by (simp add: endpoint_preflight)
next
  case False
  with assms(2) show ?thesis by (simp add: endpoint_handler mcp_config assms(1))
qed

lemma run_setting_persists:
  assumes "\<And>req c. get (apply_query req c) =
             (if js_truthy (req_query req name) then req_query req name else get c)"
    and "\<forall>ev \<in> set evs. req_method (fst ev) = ''OPTIONS'' \<or> \<not> js_truthy (req_query (fst ev) name)"
  shows "get (config (run evs s)) = get (config s)"
  using assms(2)
proof (induction evs arbitrary: s)
  case Nil
  then show ?case by simp
next
  case (Cons ev evs)
  obtain req d where ev: "ev = (req, d)" by (cases ev)
  have "get (config (run evs (fst (endpoint req d s)))) = get (config (fst (endpoint req d s)))"
    using Cons.prems by (intro Cons.IH) simp
  also have "\<dots> = get (config s)"
    using Cons.prems ev by (intro endpoint_setting[OF assms(1)]) simp
  finally show ?case using ev by simp
qed

lemma mcp_servers_prefix: "\<exists>new. servers (fst (mcp req d s)) = servers s @ new"
  by (cases rule: mcp_cases[of req d s]) auto

lemma endpoint_servers_prefix: "\<exists>new. servers (fst (endpoint req d s)) = servers s @ new"
  by (cases "req_method req = ''OPTIONS''")
    (simp_all add: endpoint_preflight endpoint_handler mcp_servers_prefix)

lemma run_servers_prefix: "\<exists>new. servers (run evs s) = servers s @ new"
proof (induction evs arbitrary: s)
  case Nil
  then show ?case by simp
next
  case (Cons ev evs)
  obtain req d where ev: "ev = (req, d)" by (cases ev)
  from endpoint_servers_prefix obtain new1 where
    1: "servers (fst (endpoint req d s)) = servers s @ new1"
    by blast
  from Cons.IH obtain new2 where
    "servers (run evs (fst (endpoint req d s))) = servers (fst (endpoint req d s)) @ new2"
    by blast
  with 1 ev show ?case by simp
qed

section \<open>Facts about the serialiser\<close>

lemma decimal_nonempty: "decimal n \<noteq> []"
  by (subst decimal.simps) simp

lemma stringify_nonempty: "stringify level v \<noteq> []"
  by (cases v) (auto simp: number_string_def decimal_nonempty quote_def)

section \<open>Session routing\<close>

text \<open>
  Claim C1, as the code has it. In a running server with the API key configured, a
  \<^verbatim>\<open>POST\<close> without a recognized session id gets a transport created for it, one that is not
  in the table, whatever that transport then does. The handler itself inserts nothing: without an initialization callback no
  entry is added to the table, and when the new transport fires the callback with the
  session id \<open>sid\<close> the table gets the entry of \<open>sid\<close> and that transport. From then on a
  \<^verbatim>\<open>GET\<close>, \<^verbatim>\<open>POST\<close> or \<^verbatim>\<open>DELETE\<close> bearing \<open>sid\<close> is handed to that transport and not to a new one,
  for as long as the entry is left alone: no \<^verbatim>\<open>DELETE\<close> bearing \<open>sid\<close> has returned, the
  transport has not fired its close callback, and no other transport has fired its
  initialization callback with \<open>sid\<close>.
\<close>

theorem new_session_routing:
  assumes reach: "s = run history (startHttpServer c0)"
    and post: "req_method req = ''POST''"
    and unknown: "lookup_session (mcp_session_id req) (transports s) = None"
    and key: "js_truthy (CODEGPT_API_KEY (apply_query req (config s)))"
    and sid: "sid \<noteq> []"
    and init: "fired d = [SessionInitialized sid]"
    and later: "undisturbed sid (length (servers s)) later (fst (mcp req d s))"
    and meth: "req_method req' = ''GET'' \<or> req_method req' = ''POST'' \<or> req_method req' = ''DELETE''"
    and bearing: "mcp_session_id req' = Some sid"
  shows "snd (mcp req d s) = Created (length (servers s)) (outcome d)
       \<and> length (servers s) \<notin> snd ` set (transports s)
       \<and> (\<forall>d0. snd (mcp req d0 s) = Created (length (servers s)) (outcome d0))
       \<and> (\<forall>d0. (\<forall>x. SessionInitialized x \<notin> set (fired d0)) \<longrightarrow>
                set (transports (fst (mcp req d0 s))) \<subseteq> set (transports s))
       \<and> transports (fst (mcp req d s)) = AList.update sid (length (servers s)) (transports s)
       \<and> snd (mcp req' d' (run later (fst (mcp req d s)))) =
           Delegated (length (servers s)) (outcome d')"
proof -
  let ?t = "length (servers s)" and ?s1 = "fst (mcp req d s)"
  have wfs: "wf s" unfolding reach by (rule run_wf[OF start_wf])
  have created: "snd (mcp req d0 s) = Created ?t (outcome d0)" for d0
    using post unknown key by (simp add: mcp_def Let_def)
  have new: "?t \<notin> snd ` set (transports s)"
    using wfs by (auto simp: wf_def)
  have tbl: "transports ?s1 = AList.update sid ?t (transports s)"
    using post unknown key init
    by (simp add: mcp_def Let_def handleRequest_def onsessioninitialized_def)
  have entry: "map_of (transports ?s1) sid = Some ?t"
    by (simp add: tbl update_conv')
  have key1: "js_truthy (CODEGPT_API_KEY (config ?s1))"
    using key by (simp add: mcp_config)
  have "map_of (transports (run later ?s1)) sid = Some ?t"
    by (rule run_keeps[OF mcp_wf[OF wfs] entry later])
  then have routed: "snd (mcp req' d' (run later ?s1)) = Delegated ?t (outcome d')"
    by (rule routed_to_session[OF run_key[OF key1] _ sid bearing meth])
  from created new tbl routed mcp_no_insert show ?thesis by blast
qed

theorem new_session_routing_witness:
  "snd (mcp (http_request ''POST'' None) (handshake ''abc'') (startHttpServer keyed_config))
     = Created 0 Resolved
   \<and> transports (fst (mcp (http_request ''POST'' None) (handshake ''abc'')
        (startHttpServer keyed_config))) = [(''abc'', 0)]
   \<and> snd (mcp (http_request ''DELETE'' (Some ''abc'')) answers
        (run [(http_request ''GET'' (Some ''abc''), answers),
              (http_request ''POST'' None, handshake ''xyz''),
              (http_request ''DELETE'' (Some ''xyz''), closes)]
          (fst (mcp (http_request ''POST'' None) (handshake ''abc'')
             (startHttpServer keyed_config)))))
     = Delegated 0 Resolved"
  using new_session_routing[of "startHttpServer keyed_config" "[]" keyed_config
      "http_request ''POST'' None" "''abc''" "handshake ''abc''"
      "[(http_request ''GET'' (Some ''abc''), answers),
        (http_request ''POST'' None, handshake ''xyz''),
        (http_request ''DELETE'' (Some ''xyz''), closes)]"
      "http_request ''DELETE'' (Some ''abc'')" answers]
  by (simp add: startHttpServer_def keyed_config_def http_request_def handshake_def answers_def
      closes_def mcp_def endpoint_def cors_def lookup_session_def apply_query_def
      handleRequest_def onsessioninitialized_def onclose_def keeps_def handled_by_def
      registerTools_def tool_def new_McpServer_def Let_def)

text \<open>
  After a \<^verbatim>\<open>DELETE\<close> the session id is no longer in the table: a \<^verbatim>\<open>POST\<close> bearing it gets a new
  transport and a \<^verbatim>\<open>GET\<close> bearing it is refused.
\<close>

theorem new_session_routing_counterexample:
  "snd (mcp (http_request ''POST'' None) (handshake ''abc'') (startHttpServer keyed_config))
     = Created 0 Resolved
   \<and> snd (mcp (http_request ''DELETE'' (Some ''abc'')) answers
        (fst (mcp (http_request ''POST'' None) (handshake ''abc'') (startHttpServer keyed_config))))
     = Delegated 0 Resolved
   \<and> snd (mcp (http_request ''POST'' (Some ''abc'')) answers
        (run [(http_request ''POST'' None, handshake ''abc''),
              (http_request ''DELETE'' (Some ''abc''), answers)] (startHttpServer keyed_config)))
     = Created 1 Resolved
   \<and> snd (mcp (http_request ''GET'' (Some ''abc'')) answers
        (run [(http_request ''POST'' None, handshake ''abc''),
              (http_request ''DELETE'' (Some ''abc''), answers)] (startHttpServer keyed_config)))
     = Json 400 ''Invalid or missing session ID''"
  by (simp add: startHttpServer_def keyed_config_def http_request_def handshake_def answers_def
      mcp_def endpoint_def cors_def lookup_session_def apply_query_def handleRequest_def
      onsessioninitialized_def registerTools_def tool_def new_McpServer_def Let_def)

section \<open>The credential gate\<close>

text \<open>
  Claim C2, as the code has it. When the configuration has no API key after the
  overrides of the request's query parameters, a request of any method but \<^verbatim>\<open>OPTIONS\<close>,
  whatever session id it carries, is answered 400 with the error "API key required ..."
  and nothing happens to the sessions: the table and the servers are as before, and no
  transport gets the request. An \<^verbatim>\<open>OPTIONS\<close> request does not reach the handler: the CORS
  preflight answers it 204 and leaves the whole state as it was.
\<close>

theorem credential_gate:
  assumes "\<not> js_truthy (CODEGPT_API_KEY (apply_query req (config s)))"
  shows "(req_method req \<noteq> ''OPTIONS'' \<longrightarrow>
            snd (endpoint req d s) = api_key_required
          \<and> handled_by (snd (endpoint req d s)) = None
          \<and> transports (fst (endpoint req d s)) = transports s
          \<and> servers (fst (endpoint req d s)) = servers s)
       \<and> (req_method req = ''OPTIONS'' \<longrightarrow> endpoint req d s = (s, NoContent 204))"
  using assms
  by (simp add: endpoint_def cors_def mcp_def Let_def api_key_required_def handled_by_def)

theorem credential_gate_witness:
  "snd (endpoint (with_query (http_request ''DELETE'' (Some ''abc'')) ''config.apiKey'' (JStr []))
        closes (startHttpServer unset_config))
     = Json 400 ''API key required. Pass config.apiKey as query parameter or set CODEGPT_API_KEY env var.''
   \<and> transports (fst (endpoint
        (with_query (http_request ''DELETE'' (Some ''abc'')) ''config.apiKey'' (JStr []))
        closes (startHttpServer unset_config))) = []
   \<and> servers (fst (endpoint (http_request ''POST'' None) (handshake ''abc'')
        (startHttpServer unset_config))) = []
   \<and> snd (endpoint (http_request ''POST'' None) (handshake ''abc'')
        (startHttpServer unset_config)) = api_key_required"
  using credential_gate[of
      "with_query (http_request ''DELETE'' (Some ''abc'')) ''config.apiKey'' (JStr [])"
      "startHttpServer unset_config" closes]
    credential_gate[of "http_request ''POST'' None" "startHttpServer unset_config"
      "handshake ''abc''"]
  by (simp add: with_query_def http_request_def unset_config_def startHttpServer_def
      apply_query_def api_key_required_def)

text \<open>Without an API key, an \<^verbatim>\<open>OPTIONS\<close> request is answered 204 and not 400.\<close>

theorem credential_gate_counterexample:
  "\<not> js_truthy (CODEGPT_API_KEY
       (apply_query (http_request ''OPTIONS'' None) (config (startHttpServer unset_config))))
   \<and> endpoint (http_request ''OPTIONS'' None) answers (startHttpServer unset_config)
       = (startHttpServer unset_config, NoContent 204)"
  by (simp add: endpoint_def cors_def http_request_def unset_config_def startHttpServer_def
      apply_query_def)

section \<open>Closing a session\<close>

text \<open>
  Claim C3, as the code has it. A \<^verbatim>\<open>DELETE\<close> whose session id is in the table is handed to
  the transport of that session. When the delegation returns, whatever the transport did
  and answered, the entry of that id is removed from the table. When the delegation
  throws, the handler ends at that point: the table is what the transport's callbacks
  left, and the handler removes nothing itself.
\<close>

theorem delete_removes_entry:
  assumes key: "js_truthy (CODEGPT_API_KEY (apply_query req (config s)))"
    and del: "req_method req = ''DELETE''"
    and bearing: "mcp_session_id req = Some sid" and sid: "sid \<noteq> []"
    and present: "map_of (transports s) sid = Some t"
  shows "snd (mcp req d s) = Delegated t (outcome d)
       \<and> (outcome d = Resolved \<longrightarrow>
            transports (fst (mcp req d s)) = AList.delete sid (handleRequest t d (transports s))
            \<and> map_of (transports (fst (mcp req d s))) sid = None)
       \<and> (outcome d = Rejected \<longrightarrow>
            transports (fst (mcp req d s)) = handleRequest t d (transports s))"
proof -
  have "lookup_session (mcp_session_id req) (transports s) = Some (sid, t)"
    using bearing sid present by (simp add: lookup_session_Some)
  with key del show ?thesis
    by (cases "outcome d") (simp_all add: mcp_def Let_def delete_conv')
qed

theorem delete_removes_entry_witness:
  "snd (mcp (http_request ''DELETE'' (Some ''abc'')) closes
        \<lparr>config = keyed_config, transports = [(''abc'', 0), (''xyz'', 1)], servers = [[], []]\<rparr>)
     = Delegated 0 Resolved
   \<and> transports (fst (mcp (http_request ''DELETE'' (Some ''abc'')) closes
        \<lparr>config = keyed_config, transports = [(''abc'', 0), (''xyz'', 1)], servers = [[], []]\<rparr>))
     = [(''xyz'', 1)]"
  using delete_removes_entry[of "http_request ''DELETE'' (Some ''abc'')"
      "\<lparr>config = keyed_config, transports = [(''abc'', 0), (''xyz'', 1)], servers = [[], []]\<rparr>"
      "''abc''" 0 closes]
  by (simp add: keyed_config_def http_request_def closes_def apply_query_def handleRequest_def
      onclose_def)

text \<open>A delegation that throws leaves the entry in the table.\<close>

theorem delete_removes_entry_counterexample:
  "snd (mcp (http_request ''DELETE'' (Some ''abc'')) throws
        \<lparr>config = keyed_config, transports = [(''abc'', 0)], servers = [[]]\<rparr>)
     = Delegated 0 Rejected
   \<and> transports (fst (mcp (http_request ''DELETE'' (Some ''abc'')) throws
        \<lparr>config = keyed_config, transports = [(''abc'', 0)], servers = [[]]\<rparr>))
     = [(''abc'', 0)]"
  by (simp add: keyed_config_def http_request_def throws_def mcp_def lookup_session_def
      apply_query_def handleRequest_def Let_def)

section \<open>Unknown sessions\<close>

text \<open>
  Claim C4. With the API key configured, a \<^verbatim>\<open>GET\<close> or a \<^verbatim>\<open>DELETE\<close> that bears no session id, or
  one that is not in the table, is answered 400 with the error "Invalid or missing
  session ID"; the table is as before, no server is created and no transport gets the
  request.
\<close>

theorem unknown_session_rejected:
  assumes "js_truthy (CODEGPT_API_KEY (apply_query req (config s)))"
    and "req_method req = ''GET'' \<or> req_method req = ''DELETE''"
    and "mcp_session_id req = None \<or>
         (\<exists>sid. mcp_session_id req = Some sid \<and> sid \<notin> fst ` set (transports s))"
  shows "snd (mcp req d s) = invalid_session
       \<and> handled_by (snd (mcp req d s)) = None
       \<and> transports (fst (mcp req d s)) = transports s
       \<and> servers (fst (mcp req d s)) = servers s"
proof -
  have "lookup_session (mcp_session_id req) (transports s) = None"
    using assms(3) by (force simp: lookup_session_def split: option.splits dest: map_of_SomeD)
  with assms(1,2) show ?thesis
    by (auto simp: mcp_def Let_def invalid_session_def handled_by_def)
qed

theorem unknown_session_rejected_witness:
  "snd (mcp (http_request ''DELETE'' (Some ''nope'')) closes
        \<lparr>config = keyed_config, transports = [(''abc'', 0)], servers = [[]]\<rparr>)
     = Json 400 ''Invalid or missing session ID''
   \<and> transports (fst (mcp (http_request ''DELETE'' (Some ''nope'')) closes
        \<lparr>config = keyed_config, transports = [(''abc'', 0)], servers = [[]]\<rparr>)) = [(''abc'', 0)]
   \<and> snd (mcp (http_request ''GET'' None) (handshake ''new'')
        \<lparr>config = keyed_config, transports = [(''abc'', 0)], servers = [[]]\<rparr>)
     = Json 400 ''Invalid or missing session ID''
   \<and> transports (fst (mcp (http_request ''GET'' None) (handshake ''new'')
        \<lparr>config = keyed_config, transports = [(''abc'', 0)], servers = [[]]\<rparr>)) = [(''abc'', 0)]"
  using unknown_session_rejected[of "http_request ''DELETE'' (Some ''nope'')"
      "\<lparr>config = keyed_config, transports = [(''abc'', 0)], servers = [[]]\<rparr>" closes]
    unknown_session_rejected[of "http_request ''GET'' None"
      "\<lparr>config = keyed_config, transports = [(''abc'', 0)], servers = [[]]\<rparr>" "handshake ''new''"]
  by (simp add: keyed_config_def http_request_def apply_query_def invalid_session_def)

section \<open>What a tool handler returns\<close>

text \<open>
  Claim C5, as the code has it. The remote call succeeds with a payload that is not
  \<^verbatim>\<open>null\<close>, and \<open>content\<close> is the payload's content field. The handlers of
  find-direct-connections, nodes-semantic-search, folder-tree-structure and
  get-usage-dependency-links return the envelope whose text is that field, and the
  literal "No response data available" when the field is falsy (absent, \<^verbatim>\<open>null\<close>, empty,
  zero or \<^verbatim>\<open>false\<close>). The handlers of list-graphs and docs-semantic-search return the
  whole payload as indented JSON instead, whatever its content field. The handler of
  get-code returns a content field that is a non-empty string as the text.
\<close>

theorem content_field_returned:
  assumes ok: "\<forall>call. fetch_json env call = Inr payload"
    and gid: "getGraphId env c (arg_graphId a) = Inr g"
    and content: "destructure_content payload = Inr content"
  shows "(truthy (arg_name a) \<longrightarrow>
            snd (find_direct_connections env c a) =
              Inr (text_content (if js_truthy content then the content
                                 else JStr ''No response data available'')))
       \<and> (truthy (arg_query a) \<longrightarrow>
            snd (nodes_semantic_search env c a) =
              Inr (text_content (if js_truthy content then the content
                                 else JStr ''No response data available'')))
       \<and> snd (folder_tree_structure env c a) =
              Inr (text_content (if js_truthy content then the content
                                 else JStr ''No response data available''))
       \<and> (truthy (arg_name a) \<longrightarrow>
            snd (get_usage_dependency_links env c a) =
              Inr (text_content (if js_truthy content then the content
                                 else JStr ''No response data available'')))
       \<and> snd (list_graphs env c a) = Inr (text_content (JStr (stringify 0 payload)))
       \<and> (truthy (arg_query a) \<longrightarrow>
            snd (docs_semantic_search env c a) = Inr (text_content (JStr (stringify 0 payload))))
       \<and> (truthy (arg_name a) \<longrightarrow> (\<forall>s. content = Some (JStr s) \<and> s \<noteq> [] \<longrightarrow>
            snd (get_code env c a) = Inr (text_content (JStr s))))"
  using ok gid content
  by (auto simp add: list_graphs_def get_code_def find_direct_connections_def
      nodes_semantic_search_def docs_semantic_search_def folder_tree_structure_def
      get_usage_dependency_links_def content_or_def Let_def or_else_def stringify_nonempty
      template_json_def split: option.splits)

theorem content_field_returned_witness:
  "snd (find_direct_connections (remote_returns (JObj [(''content'', JStr ''calls: a, b'')]))
        keyed_config (no_args\<lparr>arg_name := Some ''Foo''\<rparr>))
     = Inr [\<lparr>item_type = ''text'', item_text = JStr ''calls: a, b''\<rparr>]
   \<and> snd (folder_tree_structure (remote_returns (JObj [(''content'', JStr [])]))
        keyed_config no_args)
     = Inr [\<lparr>item_type = ''text'', item_text = JStr ''No response data available''\<rparr>]
   \<and> snd (get_usage_dependency_links (remote_returns (JObj [])) keyed_config
        (no_args\<lparr>arg_name := Some ''Foo''\<rparr>))
     = Inr [\<lparr>item_type = ''text'', item_text = JStr ''No response data available''\<rparr>]"
  using content_field_returned[of "remote_returns (JObj [(''content'', JStr ''calls: a, b'')])"
      "JObj [(''content'', JStr ''calls: a, b'')]" keyed_config "no_args\<lparr>arg_name := Some ''Foo''\<rparr>"
      None "Some (JStr ''calls: a, b'')"]
    content_field_returned[of "remote_returns (JObj [(''content'', JStr [])])"
      "JObj [(''content'', JStr [])]" keyed_config no_args None "Some (JStr [])"]
    content_field_returned[of "remote_returns (JObj [])"
      "JObj []" keyed_config "no_args\<lparr>arg_name := Some ''Foo''\<rparr>" None None]
  by (simp add: remote_returns_def spec_getGraphId_def str_def keyed_config_def no_args_def
      destructure_content_def text_content_def)

text \<open>
  docs-semantic-search answers a payload without a content field with the text \<^verbatim>\<open>{}\<close>, and
  list-graphs answers a payload whose content field is \<^verbatim>\<open>hi\<close> with the whole document.
\<close>

theorem content_field_returned_counterexample:
  "snd (docs_semantic_search (remote_returns (JObj [])) keyed_config
        (no_args\<lparr>arg_query := Some ''setup''\<rparr>))
     = Inr [\<lparr>item_type = ''text'', item_text = JStr ''{}''\<rparr>]
   \<and> destructure_content (JObj []) = Inr None
   \<and> snd (list_graphs (remote_returns (JObj [(''content'', JStr ''hi'')])) keyed_config no_args)
     = Inr [\<lparr>item_type = ''text'',
            item_text = JStr (''{'' @ [CHR 0x0A] @ ''  '' @ [CHR 0x22] @ ''content'' @ [CHR 0x22]
              @ '': '' @ [CHR 0x22] @ ''hi'' @ [CHR 0x22] @ [CHR 0x0A] @ ''}'')\<rparr>]"
  by (simp add: docs_semantic_search_def list_graphs_def remote_returns_def spec_getGraphId_def str_def
      keyed_config_def no_args_def destructure_content_def text_content_def or_else_def
      post_def Let_def quote_def escape_def indent_def numeral_2_eq_2)

text \<open>
  The handler of get-code puts the content field through a template literal before the
  fallback: an absent field comes out as the text \<^verbatim>\<open>undefined\<close>, and an empty one as "No
  response text available".
\<close>

lemma get_code_absent_content:
  "snd (get_code (remote_returns (JObj [])) keyed_config (no_args\<lparr>arg_name := Some ''Foo''\<rparr>))
     = Inr [\<lparr>item_type = ''text'', item_text = JStr ''undefined''\<rparr>]
   \<and> snd (get_code (remote_returns (JObj [(''content'', JStr [])])) keyed_config
        (no_args\<lparr>arg_name := Some ''Foo''\<rparr>))
     = Inr [\<lparr>item_type = ''text'', item_text = JStr ''No response text available''\<rparr>]"
  by (simp add: get_code_def remote_returns_def spec_getGraphId_def str_def keyed_config_def no_args_def
      destructure_content_def text_content_def or_else_def template_json_def Let_def)

text \<open>
  Claim C6. When the remote call fails with the error \<open>e\<close> (\<^verbatim>\<open>fetch\<close> rejects, or the body is
  not JSON and \<^verbatim>\<open>response.json()\<close> rejects), every handler that made the call returns a result
  envelope and throws nothing. The text of the envelope is the string form of \<open>e\<close>; for
  list-graphs it is that string after the prefix "Error fetching graphs: ".
\<close>

theorem remote_failure_becomes_text:
  assumes fails: "\<forall>call. fetch_json env call = Inl e"
    and gid: "getGraphId env c (arg_graphId a) = Inr g"
  shows "snd (list_graphs env c a) =
           Inr (text_content (JStr (''Error fetching graphs: '' @ error_string e)))
       \<and> (truthy (arg_name a) \<longrightarrow>
            snd (get_code env c a) = Inr (text_content (JStr (error_string e))) \<and>
            length (fst (get_code env c a)) = 1)
       \<and> (truthy (arg_name a) \<longrightarrow>
            snd (find_direct_connections env c a) = Inr (text_content (JStr (error_string e))) \<and>
            length (fst (find_direct_connections env c a)) = 1)
       \<and> (truthy (arg_query a) \<longrightarrow>
            snd (nodes_semantic_search env c a) = Inr (text_content (JStr (error_string e))) \<and>
            length (fst (nodes_semantic_search env c a)) = 1)
       \<and> (truthy (arg_query a) \<longrightarrow>
            snd (docs_semantic_search env c a) = Inr (text_content (JStr (error_string e))) \<and>
            length (fst (docs_semantic_search env c a)) = 1)
       \<and> snd (folder_tree_structure env c a) = Inr (text_content (JStr (error_string e)))
       \<and> length (fst (folder_tree_structure env c a)) = 1
       \<and> (truthy (arg_name a) \<longrightarrow>
            snd (get_usage_dependency_links env c a) = Inr (text_content (JStr (error_string e))) \<and>
            length (fst (get_usage_dependency_links env c a)) = 1)"
  using fails gid
  by (simp add: list_graphs_def get_code_def find_direct_connections_def
      nodes_semantic_search_def docs_semantic_search_def folder_tree_structure_def
      get_usage_dependency_links_def content_or_def Let_def)

theorem remote_failure_becomes_text_witness:
  "snd (list_graphs (remote_fails (JsError ''TypeError'' ''fetch failed'')) keyed_config
        (no_args\<lparr>arg_name := Some ''Foo'', arg_query := Some ''q''\<rparr>))
     = Inr [\<lparr>item_type = ''text'', item_text = JStr ''Error fetching graphs: TypeError: fetch failed''\<rparr>]
   \<and> snd (find_direct_connections (remote_fails (JsError ''TypeError'' ''fetch failed''))
        keyed_config (no_args\<lparr>arg_name := Some ''Foo'', arg_query := Some ''q''\<rparr>))
     = Inr [\<lparr>item_type = ''text'', item_text = JStr ''TypeError: fetch failed''\<rparr>]
   \<and> snd (get_code (remote_fails (JsError ''TypeError'' ''fetch failed''))
        keyed_config (no_args\<lparr>arg_name := Some ''Foo'', arg_query := Some ''q''\<rparr>))
     = Inr [\<lparr>item_type = ''text'', item_text = JStr ''TypeError: fetch failed''\<rparr>]"
  using remote_failure_becomes_text[of "remote_fails (JsError ''TypeError'' ''fetch failed'')"
      "JsError ''TypeError'' ''fetch failed''" keyed_config
      "no_args\<lparr>arg_name := Some ''Foo'', arg_query := Some ''q''\<rparr>" None]
  by (simp add: remote_fails_def spec_getGraphId_def str_def keyed_config_def no_args_def
      error_string_def text_content_def)

text \<open>
  Claim C7. The handlers of get-code, find-direct-connections, nodes-semantic-search,
  docs-semantic-search and get-usage-dependency-links, called with their required
  parameter absent or empty, throw the error "name is required" ("query is required"
  for the two searches) and have made no call to the remote service.
\<close>

theorem required_parameter_checked_first:
  "(\<not> truthy (arg_name a) \<longrightarrow>
      get_code env c a = ([], Inl (JsError ''Error'' ''name is required'')))
   \<and> (\<not> truthy (arg_name a) \<longrightarrow>
      find_direct_connections env c a = ([], Inl (JsError ''Error'' ''name is required'')))
   \<and> (\<not> truthy (arg_query a) \<longrightarrow>
      nodes_semantic_search env c a = ([], Inl (JsError ''Error'' ''query is required'')))
   \<and> (\<not> truthy (arg_query a) \<longrightarrow>
      docs_semantic_search env c a = ([], Inl (JsError ''Error'' ''query is required'')))
   \<and> (\<not> truthy (arg_name a) \<longrightarrow>
      get_usage_dependency_links env c a = ([], Inl (JsError ''Error'' ''name is required'')))"
  by (simp add: get_code_def find_direct_connections_def nodes_semantic_search_def
      docs_semantic_search_def get_usage_dependency_links_def)

theorem required_parameter_checked_first_witness:
  "get_code (remote_returns JNull) keyed_config (no_args\<lparr>arg_name := Some []\<rparr>)
     = ([], Inl (JsError ''Error'' ''name is required''))
   \<and> find_direct_connections (remote_returns JNull) keyed_config (no_args\<lparr>arg_name := Some []\<rparr>)
     = ([], Inl (JsError ''Error'' ''name is required''))
   \<and> nodes_semantic_search (remote_returns JNull) keyed_config (no_args\<lparr>arg_name := Some []\<rparr>)
     = ([], Inl (JsError ''Error'' ''query is required''))
   \<and> docs_semantic_search (remote_returns JNull) keyed_config (no_args\<lparr>arg_name := Some []\<rparr>)
     = ([], Inl (JsError ''Error'' ''query is required''))
   \<and> get_usage_dependency_links (remote_returns JNull) keyed_config (no_args\<lparr>arg_name := Some []\<rparr>)
     = ([], Inl (JsError ''Error'' ''name is required''))"
  using required_parameter_checked_first[of "no_args\<lparr>arg_name := Some []\<rparr>"
      "remote_returns JNull" keyed_config]
  by (simp add: no_args_def)

section \<open>Registration of list-graphs\<close>

text \<open>
  Claim C8. On a new server, \<^verbatim>\<open>registerTools\<close> registers list-graphs exactly when, at that
  moment, the configured graph id is unset, the configured repository URL is unset and
  the multi-repo flag is unset (unset: falsy). It is decided once: the tools of a server
  that exists stay what they were through every later request, also through requests that
  change the configuration.
\<close>

theorem list_graphs_registration:
  "(''list-graphs'' \<in> set (registerTools c new_McpServer)) =
     (\<not> js_truthy (CODEGPT_GRAPH_ID c) \<and> \<not> js_truthy (CODEGPT_REPO_URL c) \<and> \<not> IS_MULTI_REPO c)
   \<and> (\<forall>t < length (servers s). servers (run evs s) ! t = servers s ! t)"
proof -
  from run_servers_prefix obtain new where "servers (run evs s) = servers s @ new" by blast
  then have "\<forall>t < length (servers s). servers (run evs s) ! t = servers s ! t"
    by (simp add: nth_append)
  then show ?thesis
    by (simp add: registerTools_def tool_def new_McpServer_def Let_def)
qed

theorem list_graphs_registration_witness:
  "''list-graphs'' \<in> set (registerTools keyed_config new_McpServer)
   \<and> ''list-graphs'' \<notin> set (registerTools (keyed_config\<lparr>CODEGPT_GRAPH_ID := Some (JStr ''g1'')\<rparr>) new_McpServer)
   \<and> CODEGPT_GRAPH_ID (config (run
        [(with_query (http_request ''POST'' (Some ''abc'')) ''config.graphId'' (JStr ''g1''), answers)]
        (fst (mcp (http_request ''POST'' None) (handshake ''abc'') (startHttpServer keyed_config)))))
       = Some (JStr ''g1'')
   \<and> servers (run
        [(with_query (http_request ''POST'' (Some ''abc'')) ''config.graphId'' (JStr ''g1''), answers)]
        (fst (mcp (http_request ''POST'' None) (handshake ''abc'') (startHttpServer keyed_config)))) ! 0
       = [''list-graphs'', ''get-code'', ''find-direct-connections'', ''nodes-semantic-search'',
          ''docs-semantic-search'', ''folder-tree-structure'', ''get-usage-dependency-links'']"
  using list_graphs_registration[of keyed_config
      "fst (mcp (http_request ''POST'' None) (handshake ''abc'') (startHttpServer keyed_config))"
      "[(with_query (http_request ''POST'' (Some ''abc'')) ''config.graphId'' (JStr ''g1''), answers)]"]
    list_graphs_registration[of "keyed_config\<lparr>CODEGPT_GRAPH_ID := Some (JStr ''g1'')\<rparr>"
      "startHttpServer keyed_config" "[]"]
  by (simp add: startHttpServer_def keyed_config_def http_request_def handshake_def answers_def
      with_query_def mcp_def endpoint_def cors_def lookup_session_def apply_query_def
      handleRequest_def onsessioninitialized_def registerTools_def tool_def new_McpServer_def
      Let_def)

section \<open>Two repositories on the command line\<close>

text \<open>
  The block that reads the command line is in \<^verbatim>\<open>createServer\<close>. There, outside HTTP mode and
  without a user configuration, two positional arguments that both contain \<^verbatim>\<open>/\<close> and of
  which neither starts with \<^verbatim>\<open>sk-\<close> turn multi-repo mode on and become the repository list;
  \<^verbatim>\<open>CODEGPT_REPO_URL\<close> and the API key keep their values. An argument that starts with \<^verbatim>\<open>sk-\<close>
  is read as the API key even when it contains \<^verbatim>\<open>/\<close>.
\<close>

lemma createServer_two_repositories:
  assumes "drop 2 argv = [a, b]"
    and "includes_char a CHR ''/''" and "includes_char b CHR ''/''"
    and "\<not> startsWith a ''sk-''" and "\<not> startsWith b ''sk-''"
  shows "IS_MULTI_REPO (fst (createServer False None argv c))
       \<and> REPO_LIST (fst (createServer False None argv c)) = [a, b]
       \<and> CODEGPT_REPO_URL (fst (createServer False None argv c)) = CODEGPT_REPO_URL c
       \<and> CODEGPT_API_KEY (fst (createServer False None argv c)) = CODEGPT_API_KEY c"
  using assms by (simp add: createServer_def cli_arguments_def Let_def)

lemma createServer_sk_argument:
  "includes_char ''sk-live/1'' CHR ''/'' \<and> includes_char ''org/repo'' CHR ''/''
   \<and> \<not> IS_MULTI_REPO (fst (createServer False None
        [''node'', ''index.js'', ''sk-live/1'', ''org/repo''] unset_config))
   \<and> REPO_LIST (fst (createServer False None
        [''node'', ''index.js'', ''sk-live/1'', ''org/repo''] unset_config)) = []
   \<and> CODEGPT_REPO_URL (fst (createServer False None
        [''node'', ''index.js'', ''sk-live/1'', ''org/repo''] unset_config))
       = Some (JStr ''org/repo'')"
  by (simp add: createServer_def cli_arguments_def includes_char_def startsWith_def
      unset_config_def str_def Let_def)


section \<open>Query-parameter overrides\<close>

text \<open>
  Claim C10, as the code has it. For a request that reaches the handler (any method but
  \<^verbatim>\<open>OPTIONS\<close>), the configuration with the overrides of the request becomes the configuration
  of the process; an \<^verbatim>\<open>OPTIONS\<close> request changes nothing. Each of \<^verbatim>\<open>config.apiKey\<close>, \<^verbatim>\<open>config.orgId\<close>,
  \<^verbatim>\<open>config.graphId\<close> and \<^verbatim>\<open>config.repoUrl\<close> replaces its setting exactly when its value is
  truthy: a non-empty string, or the array or object that the query parser makes of a
  repeated or bracketed parameter. An absent value and the empty string leave the
  setting as it was. A setting keeps its value through every later request that is an
  \<^verbatim>\<open>OPTIONS\<close> request or carries no truthy value for it; so after a request with a truthy
  \<^verbatim>\<open>config.apiKey\<close> has reached the handler, a later request without one is checked against
  that key and is not answered "API key required".
\<close>

theorem query_overrides:
  "(req_method req \<noteq> ''OPTIONS'' \<longrightarrow> config (fst (endpoint req d s)) = apply_query req (config s))
   \<and> (req_method req = ''OPTIONS'' \<longrightarrow> config (fst (endpoint req d s)) = config s)
   \<and> CODEGPT_API_KEY (apply_query req c) =
       (if js_truthy (req_query req ''config.apiKey'') then req_query req ''config.apiKey''
        else CODEGPT_API_KEY c)
   \<and> CODEGPT_ORG_ID (apply_query req c) =
       (if js_truthy (req_query req ''config.orgId'') then req_query req ''config.orgId''
        else CODEGPT_ORG_ID c)
   \<and> CODEGPT_GRAPH_ID (apply_query req c) =
       (if js_truthy (req_query req ''config.graphId'') then req_query req ''config.graphId''
        else CODEGPT_GRAPH_ID c)
   \<and> CODEGPT_REPO_URL (apply_query req c) =
       (if js_truthy (req_query req ''config.repoUrl'') then req_query req ''config.repoUrl''
        else CODEGPT_REPO_URL c)
   \<and> \<not> js_truthy None
   \<and> js_truthy (Some (JStr v)) = (v \<noteq> [])
   \<and> js_truthy (Some (JArr vs))
   \<and> js_truthy (Some (JObj ps))
   \<and> ((\<forall>ev \<in> set later. req_method (fst ev) = ''OPTIONS''
          \<or> \<not> js_truthy (req_query (fst ev) ''config.apiKey'')) \<longrightarrow>
        CODEGPT_API_KEY (config (run later s)) = CODEGPT_API_KEY (config s))
   \<and> ((\<forall>ev \<in> set later. req_method (fst ev) = ''OPTIONS''
          \<or> \<not> js_truthy (req_query (fst ev) ''config.orgId'')) \<longrightarrow>
        CODEGPT_ORG_ID (config (run later s)) = CODEGPT_ORG_ID (config s))
   \<and> ((\<forall>ev \<in> set later. req_method (fst ev) = ''OPTIONS''
          \<or> \<not> js_truthy (req_query (fst ev) ''config.graphId'')) \<longrightarrow>
        CODEGPT_GRAPH_ID (config (run later s)) = CODEGPT_GRAPH_ID (config s))
   \<and> ((\<forall>ev \<in> set later. req_method (fst ev) = ''OPTIONS''
          \<or> \<not> js_truthy (req_query (fst ev) ''config.repoUrl'')) \<longrightarrow>
        CODEGPT_REPO_URL (config (run later s)) = CODEGPT_REPO_URL (config s))
   \<and> (req_method req \<noteq> ''OPTIONS'' \<and> js_truthy (req_query req ''config.apiKey'')
        \<and> (\<forall>ev \<in> set later. req_method (fst ev) = ''OPTIONS''
              \<or> \<not> js_truthy (req_query (fst ev) ''config.apiKey''))
        \<and> \<not> js_truthy (req_query req' ''config.apiKey'') \<longrightarrow>
        CODEGPT_API_KEY (apply_query req' (config (run later (fst (endpoint req d s)))))
          = req_query req ''config.apiKey''
        \<and> snd (endpoint req' d' (run later (fst (endpoint req d s)))) \<noteq> api_key_required)"
proof -
  have p1: "CODEGPT_API_KEY (config (run later s0)) = CODEGPT_API_KEY (config s0)"
    if "\<forall>ev \<in> set later. req_method (fst ev) = ''OPTIONS''
          \<or> \<not> js_truthy (req_query (fst ev) ''config.apiKey'')" for s0
    using that by (intro run_setting_persists[where name = "''config.apiKey''"])
      (simp_all add: apply_query_fields)
  have p2: "CODEGPT_ORG_ID (config (run later s)) = CODEGPT_ORG_ID (config s)"
    if "\<forall>ev \<in> set later. req_method (fst ev) = ''OPTIONS''
          \<or> \<not> js_truthy (req_query (fst ev) ''config.orgId'')"
    using that by (intro run_setting_persists[where name = "''config.orgId''"])
      (simp_all add: apply_query_fields)
  have p3: "CODEGPT_GRAPH_ID (config (run later s)) = CODEGPT_GRAPH_ID (config s)"
    if "\<forall>ev \<in> set later. req_method (fst ev) = ''OPTIONS''
          \<or> \<not> js_truthy (req_query (fst ev) ''config.graphId'')"
    using that by (intro run_setting_persists[where name = "''config.graphId''"])
      (simp_all add: apply_query_fields)
  have p4: "CODEGPT_REPO_URL (config (run later s)) = CODEGPT_REPO_URL (config s)"
    if "\<forall>ev \<in> set later. req_method (fst ev) = ''OPTIONS''
          \<or> \<not> js_truthy (req_query (fst ev) ''config.repoUrl'')"
    using that by (intro run_setting_persists[where name = "''config.repoUrl''"])
      (simp_all add: apply_query_fields)
  have gate: "CODEGPT_API_KEY (apply_query req' (config (run later (fst (endpoint req d s)))))
          = req_query req ''config.apiKey''
        \<and> snd (endpoint req' d' (run later (fst (endpoint req d s)))) \<noteq> api_key_required"
    if h: "req_method req \<noteq> ''OPTIONS''"
      and a: "js_truthy (req_query req ''config.apiKey'')"
      and b: "\<forall>ev \<in> set later. req_method (fst ev) = ''OPTIONS''
                \<or> \<not> js_truthy (req_query (fst ev) ''config.apiKey'')"
      and c: "\<not> js_truthy (req_query req' ''config.apiKey'')"
  proof -
    let ?s2 = "run later (fst (endpoint req d s))"
    have k: "CODEGPT_API_KEY (apply_query req' (config ?s2)) = req_query req ''config.apiKey''"
      using a c p1[OF b, of "fst (endpoint req d s)"]
      by (simp add: apply_query_fields endpoint_handler[OF h] mcp_config)
    have "snd (endpoint req' d' ?s2) \<noteq> api_key_required"
    proof (cases "req_method req' = ''OPTIONS''")
      case True
      then show ?thesis by (simp add: endpoint_preflight api_key_required_def)
    next
      case False
      then show ?thesis using k a gate_passed[of req' ?s2 d'] by (simp add: endpoint_handler)
    qed
    with k show ?thesis by simp
  qed
  have applied: "req_method req \<noteq> ''OPTIONS'' \<longrightarrow>
      config (fst (endpoint req d s)) = apply_query req (config s)"
    by (simp add: endpoint_handler mcp_config)
  have skipped: "req_method req = ''OPTIONS'' \<longrightarrow> config (fst (endpoint req d s)) = config s"
    by (simp add: endpoint_preflight)
  show ?thesis
    using applied skipped p1[of s] p2 p3 p4 gate by (simp add: apply_query_fields)
qed

theorem query_overrides_witness:
  "CODEGPT_API_KEY (config (fst (endpoint
      (with_query (http_request ''GET'' None) ''config.apiKey'' (JStr ''sk-1''))
      answers (startHttpServer unset_config)))) = Some (JStr ''sk-1'')
   \<and> CODEGPT_API_KEY (apply_query
        (with_query (http_request ''GET'' None) ''config.apiKey'' (JStr [])) keyed_config)
       = Some (JStr ''sk-test'')
   \<and> snd (endpoint (http_request ''POST'' None) (handshake ''abc'')
        (run [(http_request ''GET'' None, answers),
              (with_query (http_request ''OPTIONS'' None) ''config.apiKey'' (JStr ''sk-2''), answers)]
          (fst (endpoint (with_query (http_request ''GET'' None) ''config.apiKey'' (JStr ''sk-1''))
             answers (startHttpServer unset_config))))) = Created 0 Resolved
   \<and> snd (endpoint (http_request ''POST'' None) (handshake ''abc'') (startHttpServer unset_config))
       = api_key_required"
  using query_overrides[of "with_query (http_request ''GET'' None) ''config.apiKey'' (JStr ''sk-1'')"
      answers "startHttpServer unset_config" keyed_config "''x''" "[]" "[]"
      "[(http_request ''GET'' None, answers),
        (with_query (http_request ''OPTIONS'' None) ''config.apiKey'' (JStr ''sk-2''), answers)]"
      "http_request ''POST'' None" "handshake ''abc''"]
    query_overrides[of "with_query (http_request ''GET'' None) ''config.apiKey'' (JStr [])"
      answers "startHttpServer unset_config" keyed_config "''x''" "[]" "[]" "[]"
      "http_request ''POST'' None" "handshake ''abc''"]
  by (simp add: startHttpServer_def keyed_config_def unset_config_def http_request_def
      handshake_def answers_def with_query_def mcp_def endpoint_def cors_def lookup_session_def
      apply_query_def handleRequest_def onsessioninitialized_def api_key_required_def Let_def)

text \<open>
  A repeated parameter, \<^verbatim>\<open>?config.apiKey=&config.apiKey=\<close>, arrives as an array of two empty
  strings: it is not a non-empty string, and it is stored as the API key and lets a
  later request pass. On an \<^verbatim>\<open>OPTIONS\<close> request a non-empty string is not stored.
\<close>

theorem query_overrides_counterexample:
  "CODEGPT_API_KEY (config (fst (endpoint
      (with_query (http_request ''GET'' None) ''config.apiKey'' (JArr [JStr [], JStr []]))
      answers (startHttpServer unset_config)))) = Some (JArr [JStr [], JStr []])
   \<and> snd (endpoint (http_request ''POST'' None) (handshake ''abc'')
        (run [(with_query (http_request ''GET'' None) ''config.apiKey'' (JArr [JStr [], JStr []]),
               answers)]
          (startHttpServer unset_config))) = Created 0 Resolved
   \<and> CODEGPT_API_KEY (config (fst (endpoint
        (with_query (http_request ''OPTIONS'' None) ''config.apiKey'' (JStr ''sk-1''))
        answers (startHttpServer unset_config)))) = None"
  by (simp add: startHttpServer_def unset_config_def http_request_def handshake_def answers_def
      with_query_def mcp_def endpoint_def cors_def lookup_session_def apply_query_def
      handleRequest_def onsessioninitialized_def Let_def)

end
